theory Spec2Isabelle
  imports Complex_Main
begin

section \<open>Runtime values\<close>

text \<open>
  The hook in \<open>src/hooks/useTasks.ts\<close> runs on JavaScript values: the TypeScript
  types are erased, and the loaded data is cast from \<open>any[]\<close>. A number is a double;
  only its comparisons with zero and its finiteness are used, so it is modelled by its
  exact value, with the three non-finite doubles kept apart.
\<close>

datatype number = NaN | Finite real | PosInfinity | NegInfinity

text \<open>\<open>x <= 0\<close> and \<open>x > 0\<close> on doubles: every comparison with \<open>NaN\<close> is false.\<close>

fun le_zero :: "number \<Rightarrow> bool" where
  "le_zero NaN = False"
| "le_zero (Finite r) = (r \<le> 0)"
| "le_zero PosInfinity = False"
| "le_zero NegInfinity = True"

fun gt_zero :: "number \<Rightarrow> bool" where
  "gt_zero NaN = False"
| "gt_zero (Finite r) = (0 < r)"
| "gt_zero PosInfinity = True"
| "gt_zero NegInfinity = False"

text \<open>\<open>Number.isFinite\<close>.\<close>

fun isFinite :: "number \<Rightarrow> bool" where
  "isFinite (Finite r) = True"
| "isFinite _ = False"

text \<open>
  A value as \<open>JSON.parse\<close> or a caller can hand it over. \<open>JUndefined\<close> is what reading
  a missing property gives. An object is the list of its own properties.
\<close>

datatype jsval =
    JUndefined
  | JNull
  | JBool bool
  | JNum number
  | JStr string
  | JArr "jsval list"
  | JObj "(string \<times> jsval) list"

text \<open>Truthiness, as \<open>||\<close>, \<open>!\<close> and \<open>?:\<close> test it.\<close>

fun truthy :: "jsval \<Rightarrow> bool" where
  "truthy JUndefined = False"
| "truthy JNull = False"
| "truthy (JBool b) = b"
| "truthy (JNum NaN) = False"
| "truthy (JNum (Finite r)) = (r \<noteq> 0)"
| "truthy (JNum PosInfinity) = True"
| "truthy (JNum NegInfinity) = True"
| "truthy (JStr s) = (s \<noteq> [])"
| "truthy (JArr xs) = True"
| "truthy (JObj kvs) = True"

text \<open>\<open>a || b\<close> and \<open>a ?? b\<close>.\<close>

definition or_else :: "jsval \<Rightarrow> jsval \<Rightarrow> jsval" where
  "or_else a b = (if truthy a then a else b)"

definition nullish :: "jsval \<Rightarrow> bool" where
  "nullish v = (v = JUndefined \<or> v = JNull)"

section \<open>Tasks and the hook's state\<close>

text \<open>
  A stored task. \<open>revenue\<close> and \<open>timeTaken\<close> are numbers and \<open>createdAt\<close> is a string
  on every path that builds a task; the other fields are passed through from the input
  as they come. \<open>completedAt\<close> is optional: \<open>JUndefined\<close> when absent.
\<close>

record task =
  task_id :: jsval
  title :: jsval
  revenue :: number
  timeTaken :: number
  priority :: jsval
  status :: jsval
  task_notes :: jsval
  createdAt :: string
  completedAt :: jsval

text \<open>The five \<open>useState\<close> cells of \<open>useTasks\<close>.\<close>

record state =
  tasks :: "task list"
  loading :: bool
  error :: "string option"
  lastDeleted :: "task option"
  lastDeletedToken :: "string option"

definition initial :: state where
  "initial = \<lparr>tasks = [], loading = True, error = None,
     lastDeleted = None, lastDeletedToken = None\<rparr>"

section \<open>Mutation engine\<close>

text \<open>
  The argument of \<open>addTask\<close>: a task without \<open>createdAt\<close>, its \<open>id\<close> optional
  (\<open>JUndefined\<close> when not given).
\<close>

record new_task =
  new_id :: jsval
  new_title :: jsval
  new_revenue :: number
  new_timeTaken :: number
  new_priority :: jsval
  new_status :: jsval
  new_notes :: jsval
  new_completedAt :: jsval

text \<open>
  \<open>addTask\<close>. \<open>uuid\<close> is what \<open>crypto.randomUUID()\<close> returns at this call and \<open>now\<close>
  what \<open>new Date().toISOString()\<close> returns. The spread copies the argument's fields;
  \<open>id\<close>, \<open>timeTaken\<close>, \<open>createdAt\<close> and \<open>completedAt\<close> are then overwritten.
\<close>

definition addTask :: "string \<Rightarrow> string \<Rightarrow> new_task \<Rightarrow> state \<Rightarrow> state" where
  "addTask uuid now task s =
     (let ident = (if nullish (new_id task) then JStr uuid else new_id task);
          tt = (if le_zero (new_timeTaken task) then Finite 1 else new_timeTaken task);
          created = now;
          completed = (if new_status task = JStr ''Done'' then JStr created else JUndefined)
      in s\<lparr>tasks := tasks s @
            [\<lparr>task_id = ident, title = new_title task, revenue = new_revenue task,
              timeTaken = tt, priority = new_priority task, status = new_status task,
              task_notes = new_notes task, createdAt = created, completedAt = completed\<rparr>]\<rparr>)"

text \<open>
  A \<open>Partial<Task>\<close>: \<open>None\<close> for a key the patch does not have. A key that is there
  holds a value of the field's type; \<open>completedAt\<close> may be there and hold \<open>undefined\<close>.
\<close>

record patch =
  p_id :: "jsval option"
  p_title :: "jsval option"
  p_revenue :: "number option"
  p_timeTaken :: "number option"
  p_priority :: "jsval option"
  p_status :: "jsval option"
  p_notes :: "jsval option"
  p_createdAt :: "string option"
  p_completedAt :: "jsval option"

definition empty_patch :: patch where
  "empty_patch = \<lparr>p_id = None, p_title = None, p_revenue = None, p_timeTaken = None,
     p_priority = None, p_status = None, p_notes = None, p_createdAt = None,
     p_completedAt = None\<rparr>"

text \<open>\<open>{ ...t, ...patch }\<close>: a shallow merge, the patch's keys winning.\<close>

definition merge :: "task \<Rightarrow> patch \<Rightarrow> task" where
  "merge t p =
     \<lparr>task_id = (case p_id p of None \<Rightarrow> task_id t | Some v \<Rightarrow> v),
      title = (case p_title p of None \<Rightarrow> title t | Some v \<Rightarrow> v),
      revenue = (case p_revenue p of None \<Rightarrow> revenue t | Some v \<Rightarrow> v),
      timeTaken = (case p_timeTaken p of None \<Rightarrow> timeTaken t | Some v \<Rightarrow> v),
      priority = (case p_priority p of None \<Rightarrow> priority t | Some v \<Rightarrow> v),
      status = (case p_status p of None \<Rightarrow> status t | Some v \<Rightarrow> v),
      task_notes = (case p_notes p of None \<Rightarrow> task_notes t | Some v \<Rightarrow> v),
      createdAt = (case p_createdAt p of None \<Rightarrow> createdAt t | Some v \<Rightarrow> v),
      completedAt = (case p_completedAt p of None \<Rightarrow> completedAt t | Some v \<Rightarrow> v)\<rparr>"

text \<open>The body of the \<open>map\<close> callback of \<open>updateTask\<close>, on one task.\<close>

definition update_one :: "string \<Rightarrow> string \<Rightarrow> patch \<Rightarrow> task \<Rightarrow> task" where
  "update_one now i p t =
     (if task_id t \<noteq> JStr i then t
      else
        let merged = merge t p;
            merged = (if status t \<noteq> JStr ''Done'' \<and> status merged = JStr ''Done''
                         \<and> \<not> truthy (completedAt merged)
                      then merged\<lparr>completedAt := JStr now\<rparr> else merged);
            merged = (if le_zero (timeTaken merged)
                      then merged\<lparr>timeTaken := Finite 1\<rparr> else merged)
        in merged)"

definition updateTask :: "string \<Rightarrow> string \<Rightarrow> patch \<Rightarrow> state \<Rightarrow> state" where
  "updateTask now i p s = s\<lparr>tasks := map (update_one now i p) (tasks s)\<rparr>"

section \<open>Delete and undo\<close>

text \<open>
  \<open>deleteTask\<close>. \<open>tok\<close> is the token this call draws (\<open>crypto.randomUUID()\<close>, or the
  time-and-random string where that is missing). \<open>prev.find(...) || null\<close> is the first
  task with the id, if any; both buffer cells are written whether or not one was found.
\<close>

definition deleteTask :: "string \<Rightarrow> string \<Rightarrow> state \<Rightarrow> state" where
  "deleteTask tok i s =
     (let target = find (\<lambda>t. task_id t = JStr i) (tasks s)
      in s\<lparr>tasks := filter (\<lambda>t. task_id t \<noteq> JStr i) (tasks s),
           lastDeleted := target,
           lastDeletedToken := Some tok\<rparr>)"




section \<open>Task normalizer\<close>

text \<open>
  What \<open>normalizeTasks\<close> takes from the JavaScript runtime and this development does
  not define: the number a string converts to, the time value a date string parses to
  (\<open>None\<close> for an invalid date), the string an array or object converts to, and the
  ISO text of a valid time value.
\<close>

record runtime =
  string_to_number :: "string \<Rightarrow> number"
  date_parse :: "string \<Rightarrow> int option"
  object_to_string :: "jsval \<Rightarrow> string"
  to_iso :: "int \<Rightarrow> string"

datatype js_error = TypeError | RangeError

text \<open>
  \<open>t.key\<close> on a value that is neither \<open>null\<close> nor \<open>undefined\<close>: an object gives its
  property, anything else has none of the keys read here.
\<close>

fun get_prop :: "jsval \<Rightarrow> string \<Rightarrow> jsval" where
  "get_prop (JObj kvs) k = (case map_of kvs k of None \<Rightarrow> JUndefined | Some v \<Rightarrow> v)"
| "get_prop _ k = JUndefined"

text \<open>\<open>Number(v)\<close>.\<close>

fun to_number :: "runtime \<Rightarrow> jsval \<Rightarrow> number" where
  "to_number rt JUndefined = NaN"
| "to_number rt JNull = Finite 0"
| "to_number rt (JBool b) = Finite (if b then 1 else 0)"
| "to_number rt (JNum n) = n"
| "to_number rt (JStr s) = string_to_number rt s"
| "to_number rt (JArr xs) = string_to_number rt (object_to_string rt (JArr xs))"
| "to_number rt (JObj kvs) = string_to_number rt (object_to_string rt (JObj kvs))"

text \<open>
  A \<open>Date\<close> is its time value in milliseconds, \<open>None\<close> for an invalid date.
  \<open>time_clip\<close> is what the constructor does with a number: beyond 8.64e15 either way,
  or not finite, the date is invalid; a fraction is cut off towards zero.
\<close>

fun time_clip :: "number \<Rightarrow> int option" where
  "time_clip (Finite r) =
     (if \<bar>r\<bar> \<le> 8640000000000000 then Some (if 0 \<le> r then \<lfloor>r\<rfloor> else \<lceil>r\<rceil>) else None)"
| "time_clip _ = None"

text \<open>\<open>new Date(v)\<close>.\<close>

fun new_Date :: "runtime \<Rightarrow> jsval \<Rightarrow> int option" where
  "new_Date rt JUndefined = None"
| "new_Date rt JNull = Some 0"
| "new_Date rt (JBool b) = Some (if b then 1 else 0)"
| "new_Date rt (JNum n) = time_clip n"
| "new_Date rt (JStr s) = date_parse rt s"
| "new_Date rt (JArr xs) = date_parse rt (object_to_string rt (JArr xs))"
| "new_Date rt (JObj kvs) = date_parse rt (object_to_string rt (JObj kvs))"

text \<open>\<open>d.toISOString()\<close> throws a \<open>RangeError\<close> on an invalid date.\<close>

definition toISOString :: "runtime \<Rightarrow> int option \<Rightarrow> js_error + string" where
  "toISOString rt d = (case d of None \<Rightarrow> Inl RangeError | Some ms \<Rightarrow> Inr (to_iso rt ms))"

definition day_ms :: int where
  "day_ms = 24 * 3600 * 1000"

text \<open>
  The callback of the \<open>map\<close> in \<open>normalizeTasks\<close>, on the element \<open>t\<close> at index
  \<open>idx\<close>. \<open>now\<close> is \<open>Date.now()\<close> and \<open>uuid\<close> what \<open>crypto.randomUUID()\<close> returns
  for this element. Reading \<open>t.createdAt\<close> from \<open>null\<close> or \<open>undefined\<close> throws a
  \<open>TypeError\<close>. The subtraction is exact: where the product leaves the range of exact
  doubles the date is far out of range already.
\<close>

definition normalize_one :: "runtime \<Rightarrow> string \<Rightarrow> int \<Rightarrow> nat \<Rightarrow> jsval \<Rightarrow> js_error + task" where
  "normalize_one rt uuid now idx t =
     (if nullish t then Inl TypeError
      else
        let created = (if truthy (get_prop t ''createdAt'') then new_Date rt (get_prop t ''createdAt'')
                       else time_clip (Finite (of_int (now - (int idx + 1) * day_ms))));
            completed =
              (if truthy (get_prop t ''completedAt'') then Inr (get_prop t ''completedAt'')
               else if get_prop t ''status'' = JStr ''Done''
               then (case created of
                       None \<Rightarrow> Inl RangeError
                     | Some ms \<Rightarrow>
                         map_sum (\<lambda>e. e) JStr
                           (toISOString rt (time_clip (Finite (of_int (ms + day_ms))))))
               else Inr JUndefined)
        in case completed of
             Inl e \<Rightarrow> Inl e
           | Inr c \<Rightarrow>
               (case toISOString rt created of
                  Inl e \<Rightarrow> Inl e
                | Inr created_iso \<Rightarrow>
                    Inr \<lparr>task_id = (if nullish (get_prop t ''id'') then JStr uuid else get_prop t ''id''),
                         title = or_else (get_prop t ''title'') (JStr ''Untitled''),
                         revenue = (if isFinite (to_number rt (get_prop t ''revenue''))
                                    then to_number rt (get_prop t ''revenue'') else Finite 0),
                         timeTaken = (if gt_zero (to_number rt (get_prop t ''timeTaken''))
                                      then to_number rt (get_prop t ''timeTaken'') else Finite 1),
                         priority = or_else (get_prop t ''priority'') (JStr ''Low''),
                         status = or_else (get_prop t ''status'') (JStr ''Todo''),
                         task_notes = or_else (get_prop t ''notes'') (JStr []),
                         createdAt = created_iso,
                         completedAt = c\<rparr>))"

text \<open>The \<open>map\<close> itself, from index \<open>idx\<close> on: the first element that throws ends it.\<close>

fun normalize_from ::
  "runtime \<Rightarrow> (nat \<Rightarrow> string) \<Rightarrow> int \<Rightarrow> nat \<Rightarrow> jsval list \<Rightarrow> js_error + task list" where
  "normalize_from rt uuids now idx [] = Inr []"
| "normalize_from rt uuids now idx (t # ts) =
     (case normalize_one rt (uuids idx) now idx t of
        Inl e \<Rightarrow> Inl e
      | Inr x \<Rightarrow>
          (case normalize_from rt uuids now (Suc idx) ts of
             Inl e \<Rightarrow> Inl e
           | Inr xs \<Rightarrow> Inr (x # xs)))"

text \<open>\<open>normalizeTasks\<close>: anything that is not an array counts as the empty array.\<close>

fun normalizeTasks :: "runtime \<Rightarrow> (nat \<Rightarrow> string) \<Rightarrow> int \<Rightarrow> jsval \<Rightarrow> js_error + task list" where
  "normalizeTasks rt uuids now (JArr xs) = normalize_from rt uuids now 0 xs"
| "normalizeTasks rt uuids now _ = Inr []"

section \<open>Load coordinator\<close>

text \<open>
  What the request of \<open>/tasks.json\<close> comes back with: \<open>fetch\<close> rejects, or there is a
  response with its \<open>ok\<close> flag, its status, and the value its body parses to (\<open>None\<close>
  when \<open>res.json()\<close> rejects).
\<close>

datatype response = NetworkFailure | HttpResponse bool nat "jsval option"

datatype load_failure = FetchRejected | HttpStatus nat | BadJson | Thrown js_error

text \<open>
  The body of the cached promise: the list it resolves to, or the failure it rejects
  with. \<open>gen\<close> stands for \<open>generateSalesTasks\<close> of \<open>utils/seed\<close>.
\<close>

definition fetch_tasks ::
  "runtime \<Rightarrow> (nat \<Rightarrow> string) \<Rightarrow> (nat \<Rightarrow> task list) \<Rightarrow> int \<Rightarrow> response
     \<Rightarrow> load_failure + task list" where
  "fetch_tasks rt uuids gen now resp =
     (case resp of
        NetworkFailure \<Rightarrow> Inl FetchRejected
      | HttpResponse ok code body \<Rightarrow>
          if \<not> ok then Inl (HttpStatus code)
          else (case body of
                  None \<Rightarrow> Inl BadJson
                | Some data \<Rightarrow>
                    (case normalizeTasks rt uuids now data of
                       Inl e \<Rightarrow> Inl (Thrown e)
                     | Inr normalized \<Rightarrow>
                         Inr (if length normalized > 0 then normalized else gen 50))))"

text \<open>
  Modelled from the spec: \<open>generateSalesTasks\<close> (imported from \<open>utils/seed\<close>) is not
  among the sources. The spec, section 6: a pure function \<open>generate(n)\<close> producing \<open>n\<close>
  synthetic Task-shaped records.
\<close>

definition seed_contract :: "(nat \<Rightarrow> task list) \<Rightarrow> bool" where
  "seed_contract gen = (\<forall>n. length (gen n) = n)"

text \<open>
  What the effect does to the hook's state once the promise has settled, for a
  consumer that is still mounted: the list on success, the message on failure
  (\<open>msg\<close> is \<open>e?.message\<close>, \<open>None\<close> when there is none), and \<open>loading\<close> off either way.
\<close>

definition load_resolved :: "task list \<Rightarrow> state \<Rightarrow> state" where
  "load_resolved finalData s = s\<lparr>tasks := finalData, loading := False\<rparr>"


text \<open>
  The module-level handle \<open>tasksFetchPromise\<close> and the promises it has held. A promise
  is named by its position in \<open>promises\<close>; \<open>requests\<close> counts the calls of \<open>fetch\<close>,
  and \<open>joined\<close> lists, for every run of the effect, the promise that run awaits.
\<close>

datatype promise = Pending | Fulfilled "task list" | Rejected load_failure

record loader =
  promises :: "promise list"
  tasksFetchPromise :: "nat option"
  requests :: nat
  joined :: "nat list"

definition initial_loader :: loader where
  "initial_loader = \<lparr>promises = [], tasksFetchPromise = None, requests = 0, joined = []\<rparr>"

text \<open>
  One run of the effect. With no handle it makes the promise, whose body runs up to
  its first \<open>await\<close> at once, calling \<open>fetch\<close>; then it awaits the handle.
\<close>

definition trigger :: "loader \<Rightarrow> loader" where
  "trigger l =
     (case tasksFetchPromise l of
        None \<Rightarrow>
          l\<lparr>promises := promises l @ [Pending],
            tasksFetchPromise := Some (length (promises l)),
            requests := requests l + 1,
            joined := joined l @ [length (promises l)]\<rparr>
      | Some k \<Rightarrow> l\<lparr>joined := joined l @ [k]\<rparr>)"

text \<open>
  The request of promise \<open>k\<close> comes back, after the effect that made it has returned:
  the promise is fulfilled with the list, or its \<open>catch\<close> sets the handle to \<open>null\<close>
  and it is rejected. A promise settles once.
\<close>

definition settle :: "nat \<Rightarrow> load_failure + task list \<Rightarrow> loader \<Rightarrow> loader" where
  "settle k outcome l =
     (if k < length (promises l) \<and> promises l ! k = Pending
      then (case outcome of
              Inr finalData \<Rightarrow> l\<lparr>promises := (promises l)[k := Fulfilled finalData]\<rparr>
            | Inl e \<Rightarrow> l\<lparr>promises := (promises l)[k := Rejected e], tasksFetchPromise := None\<rparr>)
      else l)"

datatype event = Trigger | Settle nat "load_failure + task list"

fun step :: "event \<Rightarrow> loader \<Rightarrow> loader" where
  "step Trigger l = trigger l"
| "step (Settle k outcome) l = settle k outcome l"

fun run_events :: "event list \<Rightarrow> loader \<Rightarrow> loader" where
  "run_events [] l = l"
| "run_events (e # es) l = run_events es (step e l)"

definition is_rejected :: "promise \<Rightarrow> bool" where
  "is_rejected p = (case p of Rejected e \<Rightarrow> True | _ \<Rightarrow> False)"

text \<open>
  What holds of the handle in every state the events lead to: every promise came with
  one request; with no handle, every promise so far has been rejected; with a handle,
  it is the newest promise, it has not been rejected, and all before it have.
\<close>

definition loader_inv :: "loader \<Rightarrow> bool" where
  "loader_inv l =
     (requests l = length (promises l) \<and>
      (case tasksFetchPromise l of
         None \<Rightarrow> list_all is_rejected (promises l)
       | Some k \<Rightarrow> Suc k = length (promises l) \<and> \<not> is_rejected (promises l ! k)
                   \<and> list_all is_rejected (take k (promises l))))"

section \<open>Sequences of operations\<close>


















section \<open>Example data\<close>

text \<open>A task of the shape the dashboard stores, used where a concrete input is needed.\<close>

definition example_task :: "string \<Rightarrow> string \<Rightarrow> task" where
  "example_task i st =
     \<lparr>task_id = JStr i, title = JStr ''Call client'', revenue = Finite 100,
      timeTaken = Finite 2, priority = JStr ''Low'', status = JStr st,
      task_notes = JStr [], createdAt = ''2024-01-01T00:00:00.000Z'',
      completedAt = JUndefined\<rparr>"

definition example_state :: state where
  "example_state = initial\<lparr>tasks := [example_task ''a'' ''Todo'', example_task ''b'' ''Todo'',
     example_task ''c'' ''Todo''], loading := False\<rparr>"

text \<open>The patch \<open>{status: st}\<close>.\<close>

definition status_patch :: "jsval \<Rightarrow> patch" where
  "status_patch st = empty_patch\<lparr>p_status := Some st\<rparr>"

text \<open>
  A runtime for the examples: it agrees with JavaScript on the few strings and time
  values the examples use, and what it answers elsewhere is not used.
\<close>

definition example_runtime :: runtime where
  "example_runtime =
     \<lparr>string_to_number = (\<lambda>s. if s = ''5'' then Finite 5 else NaN),
      date_parse = (\<lambda>s. if s = ''2024-01-01T00:00:00.000Z'' then Some 1704067200000 else None),
      object_to_string = (\<lambda>v. ''[object Object]''),
      to_iso = (\<lambda>ms. if ms = 1704067200000 then ''2024-01-01T00:00:00.000Z''
                     else if ms = 1704153600000 then ''2024-01-02T00:00:00.000Z''
                     else ''1970-01-01T00:00:00.000Z'')\<rparr>"

definition example_uuids :: "nat \<Rightarrow> string" where
  "example_uuids k = ''uuid-'' @ replicate k (CHR ''x'')"

text \<open>A raw record as \<open>tasks.json\<close> has them, with the given \<open>createdAt\<close>.\<close>

definition example_record :: "jsval \<Rightarrow> jsval" where
  "example_record created =
     JObj [(''id'', JStr ''t-1''), (''title'', JStr ''Ship the report''),
           (''revenue'', JNum (Finite 100)), (''timeTaken'', JNum (Finite 0)),
           (''status'', JStr ''Done''), (''createdAt'', created)]"

definition example_new_task :: "number \<Rightarrow> jsval \<Rightarrow> new_task" where
  "example_new_task tt st =
     \<lparr>new_id = JUndefined, new_title = JStr ''Follow up'', new_revenue = Finite 250,
      new_timeTaken = tt, new_priority = JStr ''High'', new_status = st,
      new_notes = JStr [], new_completedAt = JUndefined\<rparr>"

definition example_seed :: "nat \<Rightarrow> task list" where
  "example_seed n = replicate n (example_task ''seed'' ''Todo'')"




text \<open>Two runs of the effect, then the request fails with status 500.\<close>

definition failed_events :: "event list" where
  "failed_events = [Trigger, Trigger, Settle 0 (Inl (HttpStatus 500))]"

section \<open>Properties of delete and undo\<close>






lemma find_first_index:
  "find P xs = Some t \<longleftrightarrow>
     (\<exists>k < length xs. xs ! k = t \<and> P t \<and> (\<forall>j < k. \<not> P (xs ! j)))"
  by (auto simp: find_Some_iff)

text \<open>
  C10. \<open>deleteTask\<close> removes every task that has the id: the tasks left are those with
  another id, in their order, and none of them has the id. The buffer takes the first
  task of the list that has the id (nothing when there is none).
\<close>

theorem deleteTask_removes_all_buffers_first:
  "tasks (deleteTask tok i s) = filter (\<lambda>t. task_id t \<noteq> JStr i) (tasks s)
   \<and> JStr i \<notin> task_id ` set (tasks (deleteTask tok i s))
   \<and> (\<forall>t. lastDeleted (deleteTask tok i s) = Some t \<longleftrightarrow>
        (\<exists>k < length (tasks s). tasks s ! k = t \<and> task_id t = JStr i
           \<and> (\<forall>j < k. task_id (tasks s ! j) \<noteq> JStr i)))
   \<and> (lastDeleted (deleteTask tok i s) = None \<longleftrightarrow> JStr i \<notin> task_id ` set (tasks s))"
proof -
  have a: "tasks (deleteTask tok i s) = filter (\<lambda>t. task_id t \<noteq> JStr i) (tasks s)"
    by (simp add: deleteTask_def Let_def)
  have b: "JStr i \<notin> task_id ` set (tasks (deleteTask tok i s))"
    unfolding a by auto
  have c: "lastDeleted (deleteTask tok i s) = find (\<lambda>t. task_id t = JStr i) (tasks s)"
    by (simp add: deleteTask_def Let_def)
  have d: "\<forall>t. lastDeleted (deleteTask tok i s) = Some t \<longleftrightarrow>
        (\<exists>k < length (tasks s). tasks s ! k = t \<and> task_id t = JStr i
           \<and> (\<forall>j < k. task_id (tasks s ! j) \<noteq> JStr i))"
    unfolding c find_first_index by simp
  have e: "lastDeleted (deleteTask tok i s) = None \<longleftrightarrow> JStr i \<notin> task_id ` set (tasks s)"
    unfolding c find_None_iff by force
  from a b d e show ?thesis by blast
qed

text \<open>An instance with two tasks of the same id: both leave the list, the first is buffered.\<close>

theorem deleteTask_removes_all_buffers_first_witness:
  "tasks (deleteTask ''tok-1'' ''a''
      (initial\<lparr>tasks := [example_task ''a'' ''Todo'', example_task ''b'' ''Todo'',
                          example_task ''a'' ''Done'']\<rparr>)) = [example_task ''b'' ''Todo'']
   \<and> lastDeleted (deleteTask ''tok-1'' ''a''
      (initial\<lparr>tasks := [example_task ''a'' ''Todo'', example_task ''b'' ''Todo'',
                          example_task ''a'' ''Done'']\<rparr>)) = Some (example_task ''a'' ''Todo'')"
proof -
  let ?s = "initial\<lparr>tasks := [example_task ''a'' ''Todo'', example_task ''b'' ''Todo'',
                          example_task ''a'' ''Done'']\<rparr>"
  have k: "\<exists>k < length (tasks ?s). tasks ?s ! k = example_task ''a'' ''Todo''
      \<and> task_id (example_task ''a'' ''Todo'') = JStr ''a''
      \<and> (\<forall>j < k. task_id (tasks ?s ! j) \<noteq> JStr ''a'')"
    by (rule exI [of _ 0]) (simp add: example_task_def)
  from deleteTask_removes_all_buffers_first [of "''tok-1''" "''a''" ?s] k
  show ?thesis by (simp add: example_task_def)
qed







section \<open>Properties of update\<close>

lemma updateTask_nth:
  "k < length (tasks s) \<Longrightarrow> tasks (updateTask now i p s) ! k = update_one now i p (tasks s ! k)"
  by (simp add: updateTask_def)

lemma update_one_to_done:
  assumes "task_id t = JStr i" and "status t \<noteq> JStr ''Done''" and "completedAt t = JUndefined"
  shows "completedAt (update_one now i (status_patch (JStr ''Done'')) t) = JStr now"
    and "status (update_one now i (status_patch (JStr ''Done'')) t) = JStr ''Done''"
    and "task_id (update_one now i (status_patch (JStr ''Done'')) t) = JStr i"
  using assms
  by (simp_all add: update_one_def merge_def status_patch_def empty_patch_def Let_def)

lemma update_one_status_of_done:
  assumes "task_id t = JStr i" and "status t = JStr ''Done''"
  shows "completedAt (update_one now i (status_patch st) t) = completedAt t"
  using assms
  by (simp add: update_one_def merge_def status_patch_def empty_patch_def Let_def)

text \<open>
  C3. For a task that is not \<open>Done\<close> and has no \<open>completedAt\<close>, the update
  \<open>{status: 'Done'}\<close> sets \<open>completedAt\<close> (to the time of the call); the same update
  applied again, at a later time, leaves that value; and on a \<open>Done\<close> task an update of
  the status to anything else leaves \<open>completedAt\<close> as it was.
\<close>

theorem updateTask_completedAt:
  assumes "k < length (tasks s)" and "task_id (tasks s ! k) = JStr i"
  shows "(status (tasks s ! k) \<noteq> JStr ''Done'' \<and> completedAt (tasks s ! k) = JUndefined \<longrightarrow>
           completedAt (tasks (updateTask now i (status_patch (JStr ''Done'')) s) ! k) = JStr now
         \<and> completedAt (tasks (updateTask later i (status_patch (JStr ''Done''))
               (updateTask now i (status_patch (JStr ''Done'')) s)) ! k) = JStr now)
       \<and> (status (tasks s ! k) = JStr ''Done'' \<and> st \<noteq> JStr ''Done'' \<longrightarrow>
           completedAt (tasks (updateTask now i (status_patch st) s) ! k)
             = completedAt (tasks s ! k)
         \<and> status (tasks (updateTask now i (status_patch st) s) ! k) = st)"
proof -
  let ?d = "status_patch (JStr ''Done'')"
  let ?t = "tasks s ! k"
  have len: "k < length (tasks (updateTask now i ?d s))"
    using assms(1) by (simp add: updateTask_def)
  have part1: "status ?t \<noteq> JStr ''Done'' \<and> completedAt ?t = JUndefined \<longrightarrow>
           completedAt (tasks (updateTask now i ?d s) ! k) = JStr now
         \<and> completedAt (tasks (updateTask later i ?d (updateTask now i ?d s)) ! k) = JStr now"
  proof
    assume h: "status ?t \<noteq> JStr ''Done'' \<and> completedAt ?t = JUndefined"
    let ?u = "update_one now i ?d ?t"
    have u: "completedAt ?u = JStr now" "status ?u = JStr ''Done''" "task_id ?u = JStr i"
      using update_one_to_done [OF assms(2), of now] h by simp_all
    have first: "completedAt (tasks (updateTask now i ?d s) ! k) = JStr now"
      using assms(1) u(1) by (simp add: updateTask_nth)
    have "tasks (updateTask later i ?d (updateTask now i ?d s)) ! k = update_one later i ?d ?u"
      using len assms(1) by (simp add: updateTask_nth)
    then have "completedAt (tasks (updateTask later i ?d (updateTask now i ?d s)) ! k)
        = completedAt ?u"
      using update_one_status_of_done [OF u(3) u(2)] by simp
    with first u(1) show "completedAt (tasks (updateTask now i ?d s) ! k) = JStr now
         \<and> completedAt (tasks (updateTask later i ?d (updateTask now i ?d s)) ! k) = JStr now"
      by simp
  qed
  have part2: "status ?t = JStr ''Done'' \<and> st \<noteq> JStr ''Done'' \<longrightarrow>
           completedAt (tasks (updateTask now i (status_patch st) s) ! k) = completedAt ?t
         \<and> status (tasks (updateTask now i (status_patch st) s) ! k) = st"
    using assms
    by (simp add: updateTask_nth update_one_def merge_def status_patch_def empty_patch_def
        Let_def)
  from part1 part2 show ?thesis by blast
qed

text \<open>
  On the example list: \<open>b\<close> is marked \<open>Done\<close> twice, then set back to \<open>Todo\<close>; its
  \<open>completedAt\<close> is the time of the first call throughout.
\<close>

theorem updateTask_completedAt_witness:
  "completedAt (tasks (updateTask ''2024-03-01T10:00:00.000Z'' ''b''
       (status_patch (JStr ''Done'')) example_state) ! 1) = JStr ''2024-03-01T10:00:00.000Z''
   \<and> completedAt (tasks (updateTask ''2024-03-02T10:00:00.000Z'' ''b''
       (status_patch (JStr ''Done''))
       (updateTask ''2024-03-01T10:00:00.000Z'' ''b'' (status_patch (JStr ''Done''))
          example_state)) ! 1) = JStr ''2024-03-01T10:00:00.000Z''
   \<and> completedAt (tasks (updateTask ''2024-03-03T10:00:00.000Z'' ''b''
       (status_patch (JStr ''Todo''))
       (updateTask ''2024-03-01T10:00:00.000Z'' ''b'' (status_patch (JStr ''Done''))
          example_state)) ! 1) = JStr ''2024-03-01T10:00:00.000Z''"
proof -
  let ?n1 = "''2024-03-01T10:00:00.000Z''"
  let ?s1 = "updateTask ?n1 ''b'' (status_patch (JStr ''Done'')) example_state"
  have a1: "1 < length (tasks example_state)"
    and a2: "task_id (tasks example_state ! 1) = JStr ''b''"
    and a3: "status (tasks example_state ! 1) \<noteq> JStr ''Done''"
    and a4: "completedAt (tasks example_state ! 1) = JUndefined"
    by (simp_all add: example_state_def example_task_def)
  have b1: "1 < length (tasks ?s1)"
    and b2: "task_id (tasks ?s1 ! 1) = JStr ''b''"
    and b3: "status (tasks ?s1 ! 1) = JStr ''Done''"
    by (simp_all add: updateTask_def update_one_def merge_def status_patch_def
        empty_patch_def example_state_def example_task_def Let_def)
  have b4: "JStr ''Todo'' \<noteq> JStr ''Done''"
    by simp
  from updateTask_completedAt [OF a1 a2, where now = ?n1
        and later = "''2024-03-02T10:00:00.000Z''" and st = "JStr ''Todo''"]
    updateTask_completedAt [OF b1 b2, where now = "''2024-03-03T10:00:00.000Z''"
        and later = ?n1 and st = "JStr ''Todo''"]
    a3 a4 b3 b4
  show ?thesis by simp
qed

section \<open>Properties of the normalizer and the load\<close>


lemma or_else_truthy: "truthy b \<Longrightarrow> truthy (or_else a b)"
  by (simp add: or_else_def)

lemma or_else_Done:
  "or_else a (JStr ''Todo'') = JStr ''Done'' \<Longrightarrow> a = JStr ''Done''"
  by (auto simp: or_else_def split: if_splits)

text \<open>What an element that normalizes comes out as.\<close>

lemma normalize_one_Inr:
  assumes "normalize_one rt uuid now idx t = Inr x"
  obtains c created_iso where
    "x = \<lparr>task_id = (if nullish (get_prop t ''id'') then JStr uuid else get_prop t ''id''),
          title = or_else (get_prop t ''title'') (JStr ''Untitled''),
          revenue = (if isFinite (to_number rt (get_prop t ''revenue''))
                     then to_number rt (get_prop t ''revenue'') else Finite 0),
          timeTaken = (if gt_zero (to_number rt (get_prop t ''timeTaken''))
                       then to_number rt (get_prop t ''timeTaken'') else Finite 1),
          priority = or_else (get_prop t ''priority'') (JStr ''Low''),
          status = or_else (get_prop t ''status'') (JStr ''Todo''),
          task_notes = or_else (get_prop t ''notes'') (JStr []),
          createdAt = created_iso,
          completedAt = c\<rparr>"
    and "get_prop t ''status'' = JStr ''Done'' \<longrightarrow> c \<noteq> JUndefined"
proof -
  define created where "created =
    (if truthy (get_prop t ''createdAt'') then new_Date rt (get_prop t ''createdAt'')
     else time_clip (Finite (of_int (now - (int idx + 1) * day_ms))))"
  define completed where "completed =
    (if truthy (get_prop t ''completedAt'') then Inr (get_prop t ''completedAt'')
     else if get_prop t ''status'' = JStr ''Done''
     then (case created of
             None \<Rightarrow> Inl RangeError
           | Some ms \<Rightarrow>
               map_sum (\<lambda>e. e) JStr (toISOString rt (time_clip (Finite (of_int (ms + day_ms))))))
     else Inr JUndefined)"
  have nn: "\<not> nullish t"
    using assms by (auto simp: normalize_one_def)
  obtain c where c: "completed = Inr c"
    using assms nn unfolding normalize_one_def Let_def created_def [symmetric]
      completed_def [symmetric]
    by (cases completed) simp_all
  obtain created_iso where i: "toISOString rt created = Inr created_iso"
    using assms nn c unfolding normalize_one_def Let_def created_def [symmetric]
      completed_def [symmetric]
    by (cases "toISOString rt created") simp_all
  have x: "x = \<lparr>task_id = (if nullish (get_prop t ''id'') then JStr uuid else get_prop t ''id''),
          title = or_else (get_prop t ''title'') (JStr ''Untitled''),
          revenue = (if isFinite (to_number rt (get_prop t ''revenue''))
                     then to_number rt (get_prop t ''revenue'') else Finite 0),
          timeTaken = (if gt_zero (to_number rt (get_prop t ''timeTaken''))
                       then to_number rt (get_prop t ''timeTaken'') else Finite 1),
          priority = or_else (get_prop t ''priority'') (JStr ''Low''),
          status = or_else (get_prop t ''status'') (JStr ''Todo''),
          task_notes = or_else (get_prop t ''notes'') (JStr []),
          createdAt = created_iso,
          completedAt = c\<rparr>"
    using assms nn c i unfolding normalize_one_def Let_def created_def [symmetric]
      completed_def [symmetric]
    by simp
  have d: "get_prop t ''status'' = JStr ''Done'' \<longrightarrow> c \<noteq> JUndefined"
  proof (cases "truthy (get_prop t ''completedAt'')")
    case True
    with c have "c = get_prop t ''completedAt''"
      by (simp add: completed_def)
    with True show ?thesis by auto
  next
    case False
    show ?thesis
    proof
      assume s: "get_prop t ''status'' = JStr ''Done''"
      show "c \<noteq> JUndefined"
      proof (cases created)
        case None
        with c False s show ?thesis by (simp add: completed_def)
      next
        case (Some ms)
        with c False s show ?thesis
          by (cases "toISOString rt (time_clip (Finite (of_int (ms + day_ms))))")
            (auto simp: completed_def)
      qed
    qed
  qed
  from x d that show ?thesis by blast
qed

lemma normalize_one_fields:
  assumes "normalize_one rt uuid now idx t = Inr x"
  shows "truthy (title x)" and "isFinite (revenue x)" and "gt_zero (timeTaken x)"
    and "status x = JStr ''Done'' \<longrightarrow> completedAt x \<noteq> JUndefined"
    and "title x = or_else (get_prop t ''title'') (JStr ''Untitled'')"
proof -
  from assms obtain c created_iso where
    x: "x = \<lparr>task_id = (if nullish (get_prop t ''id'') then JStr uuid else get_prop t ''id''),
          title = or_else (get_prop t ''title'') (JStr ''Untitled''),
          revenue = (if isFinite (to_number rt (get_prop t ''revenue''))
                     then to_number rt (get_prop t ''revenue'') else Finite 0),
          timeTaken = (if gt_zero (to_number rt (get_prop t ''timeTaken''))
                       then to_number rt (get_prop t ''timeTaken'') else Finite 1),
          priority = or_else (get_prop t ''priority'') (JStr ''Low''),
          status = or_else (get_prop t ''status'') (JStr ''Todo''),
          task_notes = or_else (get_prop t ''notes'') (JStr []),
          createdAt = created_iso,
          completedAt = c\<rparr>"
    and c: "get_prop t ''status'' = JStr ''Done'' \<longrightarrow> c \<noteq> JUndefined"
    by (rule normalize_one_Inr)
  show "truthy (title x)" by (simp add: x or_else_truthy)
  show "isFinite (revenue x)" by (simp add: x)
  show "gt_zero (timeTaken x)" by (simp add: x)
  show "title x = or_else (get_prop t ''title'') (JStr ''Untitled'')" by (simp add: x)
  show "status x = JStr ''Done'' \<longrightarrow> completedAt x \<noteq> JUndefined"
  proof
    assume "status x = JStr ''Done''"
    then have "get_prop t ''status'' = JStr ''Done''"
      by (simp add: x or_else_Done)
    with c show "completedAt x \<noteq> JUndefined"
      by (simp add: x)
  qed
qed





lemma unparseable_createdAt_throws:
  assumes "date_parse rt s = None" and "s \<noteq> []"
  shows "normalize_one rt uuid now idx (example_record (JStr s)) = Inl RangeError"
  using assms
  by (simp add: normalize_one_def example_record_def nullish_def toISOString_def Let_def)

text \<open>
  C6 (where the code leaves it). \<open>normalizeTasks\<close> has failure paths: an array that
  holds \<open>null\<close> makes it throw a \<open>TypeError\<close>, and a record whose \<open>createdAt\<close> is
  not a date (a number out of the range of dates, or a string that does not parse)
  makes it throw a \<open>RangeError\<close>.
\<close>

theorem normalizeTasks_throws:
  "normalizeTasks rt uuids now (JArr [JNull]) = Inl TypeError
   \<and> normalizeTasks rt uuids now (JArr [example_record (JNum (Finite 10000000000000000))])
       = Inl RangeError
   \<and> (date_parse rt s = None \<and> s \<noteq> [] \<longrightarrow>
        normalizeTasks rt uuids now (JArr [example_record (JStr s)]) = Inl RangeError)"
proof -
  have a: "normalizeTasks rt uuids now (JArr [JNull]) = Inl TypeError"
    by (simp add: normalize_one_def nullish_def)
  have b: "normalizeTasks rt uuids now (JArr [example_record (JNum (Finite 10000000000000000))])
       = Inl RangeError"
    by (simp add: normalize_one_def example_record_def nullish_def toISOString_def Let_def)
  have c: "date_parse rt s = None \<and> s \<noteq> [] \<longrightarrow>
        normalizeTasks rt uuids now (JArr [example_record (JStr s)]) = Inl RangeError"
    by (simp add: unparseable_createdAt_throws)
  from a b c show ?thesis by blast
qed

theorem normalizeTasks_throws_witness:
  "date_parse example_runtime ''next week'' = None
   \<and> normalizeTasks example_runtime example_uuids 1709287200000
        (JArr [example_record (JStr ''next week'')]) = Inl RangeError
   \<and> normalizeTasks example_runtime example_uuids 1709287200000 (JArr [JNull]) = Inl TypeError"
proof -
  have h: "date_parse example_runtime ''next week'' = None \<and> ''next week'' \<noteq> []"
    by (simp add: example_runtime_def)
  from normalizeTasks_throws [of example_runtime example_uuids 1709287200000 "''next week''"] h
  show ?thesis by simp
qed

lemma fetch_tasks_ok:
  assumes "normalizeTasks rt uuids now data = Inr normalized"
  shows "fetch_tasks rt uuids gen now (HttpResponse True code (Some data))
           = Inr (if normalized = [] then gen 50 else normalized)"
  using assms by (simp add: fetch_tasks_def)

lemma fetch_tasks_Inr:
  assumes "fetch_tasks rt uuids gen now resp = Inr ts"
  shows "\<exists>normalized. ts = (if normalized = [] then gen 50 else normalized)"
  using assms
  by (auto simp: fetch_tasks_def split: response.splits if_splits option.splits sum.splits)

text \<open>
  C8. When the request succeeds and the body normalizes to no record, the promise
  resolves to the batch \<open>generateSalesTasks(50)\<close>, which has 50 records, and the list
  the effect stores is that batch; when it normalizes to at least one record, these
  records are the result. Whatever the response, a load that succeeds never yields the
  empty list.
\<close>

theorem fetch_tasks_fallback:
  assumes "seed_contract gen"
  shows "(normalizeTasks rt uuids now data = Inr normalized \<longrightarrow>
            fetch_tasks rt uuids gen now (HttpResponse True code (Some data))
              = Inr (if normalized = [] then gen 50 else normalized)
          \<and> (normalized = [] \<longrightarrow>
                length (tasks (load_resolved (gen 50) s)) = 50)
          \<and> (normalized \<noteq> [] \<longrightarrow> tasks (load_resolved normalized s) = normalized))
       \<and> (fetch_tasks rt uuids gen now resp = Inr ts \<longrightarrow>
            ts \<noteq> [] \<and> tasks (load_resolved ts s) \<noteq> [])"
proof -
  have fifty: "length (gen 50) = 50"
    using assms by (simp add: seed_contract_def)
  then have ne: "gen 50 \<noteq> []"
    by auto
  have p1: "normalizeTasks rt uuids now data = Inr normalized \<longrightarrow>
            fetch_tasks rt uuids gen now (HttpResponse True code (Some data))
              = Inr (if normalized = [] then gen 50 else normalized)
          \<and> (normalized = [] \<longrightarrow> length (tasks (load_resolved (gen 50) s)) = 50)
          \<and> (normalized \<noteq> [] \<longrightarrow> tasks (load_resolved normalized s) = normalized)"
    using fifty by (simp add: fetch_tasks_ok load_resolved_def)
  have p2: "fetch_tasks rt uuids gen now resp = Inr ts \<longrightarrow>
            ts \<noteq> [] \<and> tasks (load_resolved ts s) \<noteq> []"
  proof
    assume "fetch_tasks rt uuids gen now resp = Inr ts"
    from fetch_tasks_Inr [OF this] ne have "ts \<noteq> []"
      by (auto split: if_splits)
    then show "ts \<noteq> [] \<and> tasks (load_resolved ts s) \<noteq> []"
      by (simp add: load_resolved_def)
  qed
  from p1 p2 show ?thesis by blast
qed

text \<open>On the empty array the load gives the 50 seed records; on one record, that record.\<close>

theorem fetch_tasks_fallback_witness:
  "seed_contract example_seed
   \<and> fetch_tasks example_runtime example_uuids example_seed 1709287200000
        (HttpResponse True 200 (Some (JArr []))) = Inr (example_seed 50)
   \<and> length (tasks (load_resolved (example_seed 50) initial)) = 50
   \<and> tasks (load_resolved (example_seed 50) initial) \<noteq> []
   \<and> fetch_tasks example_runtime example_uuids example_seed 1709287200000
        (HttpResponse True 200 (Some (JArr [example_record (JStr ''2024-01-01T00:00:00.000Z'')])))
      = Inr [\<lparr>task_id = JStr ''t-1'', title = JStr ''Ship the report'', revenue = Finite 100,
              timeTaken = Finite 1, priority = JStr ''Low'', status = JStr ''Done'',
              task_notes = JStr [], createdAt = ''2024-01-01T00:00:00.000Z'',
              completedAt = JStr ''2024-01-02T00:00:00.000Z''\<rparr>]"
proof -
  let ?one = "\<lparr>task_id = JStr ''t-1'', title = JStr ''Ship the report'', revenue = Finite 100,
              timeTaken = Finite 1, priority = JStr ''Low'', status = JStr ''Done'',
              task_notes = JStr [], createdAt = ''2024-01-01T00:00:00.000Z'',
              completedAt = JStr ''2024-01-02T00:00:00.000Z''\<rparr>"
  have h: "seed_contract example_seed"
    by (simp add: seed_contract_def example_seed_def)
  have n0: "normalizeTasks example_runtime example_uuids 1709287200000 (JArr []) = Inr []"
    by simp
  have n1: "normalizeTasks example_runtime example_uuids 1709287200000
        (JArr [example_record (JStr ''2024-01-01T00:00:00.000Z'')]) = Inr [?one]"
    by (simp add: normalize_one_def example_record_def example_runtime_def nullish_def
        toISOString_def or_else_def day_ms_def Let_def)
  from fetch_tasks_fallback [OF h, where rt = example_runtime and uuids = example_uuids
      and now = 1709287200000 and data = "JArr []" and normalized = "[]" and code = 200
      and s = initial and resp = "HttpResponse True 200 (Some (JArr []))"
      and ts = "example_seed 50"]
    fetch_tasks_fallback [OF h, where rt = example_runtime and uuids = example_uuids
      and now = 1709287200000 and data = "JArr [example_record (JStr ''2024-01-01T00:00:00.000Z'')]"
      and normalized = "[?one]" and code = 200 and s = initial
      and resp = "HttpResponse True 200
        (Some (JArr [example_record (JStr ''2024-01-01T00:00:00.000Z'')]))"
      and ts = "[?one]"]
    h n0 n1
  show ?thesis by simp
qed

section \<open>The sign of \<open>timeTaken\<close>\<close>

text \<open>
  Both \<open>addTask\<close> and \<open>updateTask\<close> test \<open>timeTaken <= 0\<close>, so neither stores a
  \<open>timeTaken\<close> that is zero or less.
\<close>

lemma addTask_not_le_zero:
  assumes "\<forall>t \<in> set (tasks s). \<not> le_zero (timeTaken t)"
  shows "\<forall>t \<in> set (tasks (addTask uuid now task s)). \<not> le_zero (timeTaken t)"
  using assms by (auto simp: addTask_def Let_def)

lemma update_one_not_le_zero:
  assumes "\<not> le_zero (timeTaken t)"
  shows "\<not> le_zero (timeTaken (update_one now i p t))"
  using assms by (auto simp: update_one_def Let_def)

text \<open>
  C7 (where the code leaves it). \<open>NaN <= 0\<close> is false, so \<open>addTask\<close> stores a
  \<open>timeTaken\<close> of \<open>NaN\<close> as it is, and \<open>updateTask\<close> does the same with a patch;
  \<open>NaN > 0\<close> is false as well, so the stored task does not have \<open>timeTaken > 0\<close>.
  The normalizer tests \<open>Number(t.timeTaken) > 0\<close> instead and turns \<open>NaN\<close> into 1.
\<close>

theorem timeTaken_NaN_is_stored:
  "map timeTaken (tasks (addTask ''uuid-1'' ''2024-03-01T10:00:00.000Z''
       (example_new_task NaN (JStr ''Todo'')) initial)) = [NaN]
   \<and> map timeTaken (tasks (updateTask ''2024-03-01T10:00:00.000Z'' ''a''
       (empty_patch\<lparr>p_timeTaken := Some NaN\<rparr>) example_state)) = [NaN, Finite 2, Finite 2]
   \<and> \<not> gt_zero NaN
   \<and> map timeTaken (tasks (addTask ''uuid-1'' ''2024-03-01T10:00:00.000Z''
       (example_new_task (Finite (- 5)) (JStr ''Todo'')) initial)) = [Finite 1]"
  by (simp add: addTask_def updateTask_def update_one_def merge_def empty_patch_def
      example_new_task_def example_state_def example_task_def initial_def nullish_def Let_def)

section \<open>The in-flight load\<close>

lemma loader_inv_initial: "loader_inv initial_loader"
  by (simp add: loader_inv_def initial_loader_def)

lemma loader_inv_trigger: "loader_inv l \<Longrightarrow> loader_inv (trigger l)"
  by (auto simp: loader_inv_def trigger_def is_rejected_def split: option.splits)

lemma pending_is_handle:
  assumes "loader_inv l" and "k < length (promises l)" and "promises l ! k = Pending"
  shows "tasksFetchPromise l = Some k"
proof (cases "tasksFetchPromise l")
  case None
  with assms(1) have "list_all is_rejected (promises l)"
    by (simp add: loader_inv_def)
  with assms(2) have "is_rejected (promises l ! k)"
    by (simp add: list_all_length)
  with assms(3) show ?thesis by (simp add: is_rejected_def)
next
  case (Some j)
  with assms(1) have j: "Suc j = length (promises l)"
    and r: "list_all is_rejected (take j (promises l))"
    by (simp_all add: loader_inv_def)
  have "\<not> k < j"
  proof
    assume "k < j"
    with r j have "is_rejected (take j (promises l) ! k)"
      by (simp add: list_all_length)
    with \<open>k < j\<close> assms(3) show False by (simp add: is_rejected_def)
  qed
  with j assms(2) have "k = j" by simp
  with Some show ?thesis by simp
qed

lemma loader_inv_settle:
  assumes "loader_inv l"
  shows "loader_inv (settle k outcome l)"
proof (cases "k < length (promises l) \<and> promises l ! k = Pending")
  case False
  with assms show ?thesis by (auto simp: settle_def)
next
  case True
  then have h: "tasksFetchPromise l = Some k"
    using pending_is_handle [OF assms] by simp
  with assms have k: "Suc k = length (promises l)"
    and r: "list_all is_rejected (take k (promises l))"
    and n: "requests l = length (promises l)"
    by (simp_all add: loader_inv_def)
  show ?thesis
  proof (cases outcome)
    case (Inr finalData)
    with True h k r n show ?thesis
      by (simp add: settle_def loader_inv_def is_rejected_def)
  next
    case (Inl e)
    have "(promises l)[k := Rejected e] = take k (promises l) @ [Rejected e]"
      using k by (simp add: upd_conv_take_nth_drop)
    with Inl True h k r n show ?thesis
      by (simp add: settle_def loader_inv_def is_rejected_def)
  qed
qed

lemma loader_inv_step: "loader_inv l \<Longrightarrow> loader_inv (step e l)"
  by (cases e) (simp_all add: loader_inv_trigger loader_inv_settle)

lemma loader_inv_run: "loader_inv l \<Longrightarrow> loader_inv (run_events es l)"
  by (induction es arbitrary: l) (simp_all add: loader_inv_step)

lemma triggers_join:
  "tasksFetchPromise l = Some k \<Longrightarrow>
     run_events (replicate m Trigger) l = l\<lparr>joined := joined l @ replicate m k\<rparr>"
proof (induction m arbitrary: l)
  case 0
  then show ?case by simp
next
  case (Suc m)
  have t: "trigger l = l\<lparr>joined := joined l @ [k]\<rparr>"
    using Suc.prems by (simp add: trigger_def)
  have "tasksFetchPromise (trigger l) = Some k"
    by (simp add: t Suc.prems)
  from Suc.IH [OF this] show ?case
    by (simp add: t replicate_app_Cons_same)
qed

lemma settle_requests: "requests (settle k outcome l) = requests l"
  by (simp add: settle_def split: sum.splits)

text \<open>
  C9. Any number of runs of the effect before the first load settles issue one request
  between them, and all of them await the first promise. More generally, from any state
  the events lead to: while there is a handle, further runs of the effect issue no
  request and await the promise of the handle; an event issues a request only if it is
  a run of the effect that finds no handle, and then every earlier promise has been
  rejected (there is none at the start); and a promise that is pending is the handle's,
  so at most one request is in flight.
\<close>

theorem single_request:
  "requests (run_events (replicate (Suc n) Trigger) initial_loader) = 1
   \<and> joined (run_events (replicate (Suc n) Trigger) initial_loader) = replicate (Suc n) 0
   \<and> (tasksFetchPromise (run_events es initial_loader) = Some k \<longrightarrow>
        requests (run_events (replicate m Trigger) (run_events es initial_loader))
          = requests (run_events es initial_loader)
        \<and> joined (run_events (replicate m Trigger) (run_events es initial_loader))
          = joined (run_events es initial_loader) @ replicate m k)
   \<and> (requests (step e (run_events es initial_loader)) \<noteq> requests (run_events es initial_loader)
        \<longrightarrow> e = Trigger
          \<and> requests (step e (run_events es initial_loader))
              = requests (run_events es initial_loader) + 1
          \<and> tasksFetchPromise (run_events es initial_loader) = None
          \<and> list_all is_rejected (promises (run_events es initial_loader)))
   \<and> (j < length (promises (run_events es initial_loader))
        \<and> promises (run_events es initial_loader) ! j = Pending
        \<longrightarrow> tasksFetchPromise (run_events es initial_loader) = Some j)"
proof -
  let ?l = "run_events es initial_loader"
  have inv: "loader_inv ?l"
    by (simp add: loader_inv_run loader_inv_initial)
  have first: "trigger initial_loader
      = \<lparr>promises = [Pending], tasksFetchPromise = Some 0, requests = 1, joined = [0]\<rparr>"
    by (simp add: trigger_def initial_loader_def)
  have "run_events (replicate (Suc n) Trigger) initial_loader
      = run_events (replicate n Trigger) (trigger initial_loader)"
    by simp
  also have "\<dots> = (trigger initial_loader)\<lparr>joined := joined (trigger initial_loader) @ replicate n 0\<rparr>"
    by (rule triggers_join) (simp add: first)
  finally have a: "requests (run_events (replicate (Suc n) Trigger) initial_loader) = 1"
    and b: "joined (run_events (replicate (Suc n) Trigger) initial_loader) = replicate (Suc n) 0"
    by (simp_all add: first)
  have c: "tasksFetchPromise ?l = Some k \<longrightarrow>
        requests (run_events (replicate m Trigger) ?l) = requests ?l
        \<and> joined (run_events (replicate m Trigger) ?l) = joined ?l @ replicate m k"
    by (simp add: triggers_join)
  have d: "requests (step e ?l) \<noteq> requests ?l
        \<longrightarrow> e = Trigger \<and> requests (step e ?l) = requests ?l + 1
          \<and> tasksFetchPromise ?l = None \<and> list_all is_rejected (promises ?l)"
  proof (cases e)
    case Trigger
    show ?thesis
    proof (cases "tasksFetchPromise ?l")
      case None
      with inv have "list_all is_rejected (promises ?l)"
        by (simp add: loader_inv_def)
      with None Trigger show ?thesis
        by (simp add: trigger_def)
    next
      case (Some h)
      with Trigger show ?thesis by (simp add: trigger_def)
    qed
  next
    case (Settle q outcome)
    then show ?thesis by (simp add: settle_requests)
  qed
  have e: "j < length (promises ?l) \<and> promises ?l ! j = Pending
        \<longrightarrow> tasksFetchPromise ?l = Some j"
    using pending_is_handle [OF inv] by blast
  from a b c d e show ?thesis by blast
qed

text \<open>
  Four runs of the effect issue one request. After two runs and a failed request the
  handle is empty, and the next run issues the second request.
\<close>

theorem single_request_witness:
  "requests (run_events (replicate (Suc 3) Trigger) initial_loader) = 1
   \<and> joined (run_events (replicate (Suc 3) Trigger) initial_loader) = replicate (Suc 3) 0
   \<and> tasksFetchPromise (run_events [Trigger] initial_loader) = Some 0
   \<and> promises (run_events [Trigger] initial_loader) ! 0 = Pending
   \<and> requests (run_events (replicate 2 Trigger) (run_events [Trigger] initial_loader)) = 1
   \<and> requests (run_events failed_events initial_loader) = 1
   \<and> requests (step Trigger (run_events failed_events initial_loader)) = 2
   \<and> tasksFetchPromise (run_events failed_events initial_loader) = None
   \<and> list_all is_rejected (promises (run_events failed_events initial_loader))"
proof -
  have a: "run_events [Trigger] initial_loader
      = \<lparr>promises = [Pending], tasksFetchPromise = Some 0, requests = 1, joined = [0]\<rparr>"
    by (simp add: trigger_def initial_loader_def)
  have b: "run_events failed_events initial_loader
      = \<lparr>promises = [Rejected (HttpStatus 500)], tasksFetchPromise = None, requests = 1,
         joined = [0, 0]\<rparr>"
    by (simp add: failed_events_def trigger_def settle_def initial_loader_def)
  have c: "requests (step Trigger (run_events failed_events initial_loader)) = 2"
    by (simp add: b trigger_def)
  from single_request [where n = 3 and es = "[Trigger]" and k = 0 and m = 2 and j = 0
      and e = Trigger]
    single_request [where n = 3 and es = failed_events and k = 0 and m = 2 and j = 0
      and e = Trigger]
    a b c
  show ?thesis by simp
qed

section \<open>\<open>completedAt\<close> and the history of a task\<close>
























end
